theory Spec2Isabelle
  imports Main "HOL-Library.Sublist"
begin

section \<open>Go values used by internal/database/sqlite.go\<close>

text \<open>
  Go strings are byte sequences and are modelled as \<open>string\<close>. \<open>strings.Contains s substr\<close>
  reports whether \<open>substr\<close> occurs in \<open>s\<close> as a contiguous block; it is written here as the
  usual scan over the start positions.
\<close>

fun HasPrefix :: "string \<Rightarrow> string \<Rightarrow> bool" where
  "HasPrefix s [] = True"
| "HasPrefix [] (c # cs) = False"
| "HasPrefix (x # xs) (c # cs) = (x = c \<and> HasPrefix xs cs)"

fun Contains :: "string \<Rightarrow> string \<Rightarrow> bool" where
  "Contains [] substr = (substr = [])"
| "Contains (x # xs) substr = (HasPrefix (x # xs) substr \<or> Contains xs substr)"

text \<open>
  A non-nil value of the interface type \<open>error\<close>. Its dynamic type is either the value type
  \<open>sqlite3.Error\<close> (with its field \<open>Code\<close> and the text its \<open>Error()\<close> method yields), or any
  other type, of which only the text of \<open>Error()\<close> is observed (the results of \<open>errors.New\<close>
  and \<open>fmt.Errorf\<close> are of this kind, and so is a pointer to a \<open>sqlite3.Error\<close> that is not
  nil). These are the errors whose \<open>Error()\<close> method returns. A nil \<open>error\<close> is \<open>None\<close> of
  \<open>go_error option\<close>.
\<close>

datatype go_error = Sqlite3Error int string | PlainError string

fun Error :: "go_error \<Rightarrow> string" where
  "Error (Sqlite3Error code msg) = msg"
| "Error (PlainError msg) = msg"

text \<open>\<open>fmt.Errorf (format + "%v", e)\<close> for a non-nil \<open>e\<close>: a new error whose text is the
  format's literal part followed by \<open>e.Error()\<close>.\<close>

definition Errorf_v :: "string \<Rightarrow> go_error \<Rightarrow> go_error" where
  "Errorf_v format e = PlainError (format @ Error e)"

text \<open>
  A run-time panic: a method call on a nil interface value; a call of a method with a value
  receiver through a nil pointer; or any other panic, with its message.
\<close>

datatype panic = NilDereference | NilPointerReceiver | OtherPanic string

text \<open>
  Any value of the interface type \<open>error\<close>, as a caller may pass it: nil; a non-nil value
  whose \<open>Error()\<close> method panics when it is called; or a non-nil value whose \<open>Error()\<close>
  method returns. A nil \<open>*sqlite3.Error\<close> held in the interface is of the second kind, with
  the panic \<open>NilPointerReceiver\<close>: the interface is not nil, and \<open>Error\<close> has a value receiver.
  \<open>call_Error\<close> is the method call \<open>err.Error()\<close>.
\<close>

datatype error_value = NilError | ErrorPanics panic | ErrorReturns go_error

fun call_Error :: "error_value \<Rightarrow> panic + string" where
  "call_Error NilError = Inl NilDereference"
| "call_Error (ErrorPanics q) = Inl q"
| "call_Error (ErrorReturns e) = Inr (Error e)"

text \<open>The process environment read by \<open>os.Getenv\<close>, which yields the empty string for a
  variable that is not set.\<close>

type_synonym environ = "string \<rightharpoonup> string"

definition Getenv :: "environ \<Rightarrow> string \<Rightarrow> string" where
  "Getenv env key = (case env key of None \<Rightarrow> [] | Some v \<Rightarrow> v)"


section \<open>getSqlitePath\<close>

definition getSqlitePath :: "environ \<Rightarrow> string" where
  "getSqlitePath env =
     (let path = Getenv env ''SQLITE_DB_PATH''
      in if path = [] \<or> Contains path ''..'' then ''customers.db'' else path)"


section \<open>SqliteUniqueViolation\<close>

text \<open>
  The first argument stands for the constant \<open>sqlite3.ErrConstraint\<close> of the imported driver
  package. \<open>err.Error()\<close> is called first, so the function panics whenever that call does:
  for the nil error and for an error whose \<open>Error()\<close> panics. The type assertion
  \<open>err.(sqlite3.Error)\<close> succeeds exactly for a \<open>Sqlite3Error\<close>, and cannot panic.
\<close>

fun SqliteUniqueViolation :: "int \<Rightarrow> error_value \<Rightarrow> panic + bool" where
  "SqliteUniqueViolation ErrConstraint err =
     (case call_Error err of
        Inl q \<Rightarrow> Inl q
      | Inr text \<Rightarrow>
         (let match = Contains text ''UNIQUE constraint failed''
          in case err of
               ErrorReturns (Sqlite3Error code msg) \<Rightarrow> Inr (match \<or> code = ErrConstraint)
             | _ \<Rightarrow> Inr match))"


section \<open>The connection provider\<close>

text \<open>A \<open>*sql.DB\<close> that is not nil is identified by a number; a \<open>log.Logger\<close> likewise.\<close>

type_synonym handle = nat
type_synonym Logger = nat

text \<open>
  A go-kit Prometheus gauge: the name of its vector and the label values accumulated by
  \<open>With\<close>. \<open>Set\<close> stores a value in the registry under the vector name and the label values.
\<close>

record Gauge =
  gv :: string
  lvs :: "string list"

type_synonym 'f registry = "string \<times> string list \<rightharpoonup> 'f"

definition Gauge_With :: "Gauge \<Rightarrow> string list \<Rightarrow> Gauge" where
  "Gauge_With g labelValues = g\<lparr>lvs := lvs g @ labelValues\<rparr>"

definition Gauge_Set :: "Gauge \<Rightarrow> 'f \<Rightarrow> 'f registry \<Rightarrow> 'f registry" where
  "Gauge_Set g v reg = reg((gv g, lvs g) \<mapsto> v)"

definition sqliteConnections :: Gauge where
  "sqliteConnections = \<lparr>gv = ''sqlite_connections'', lvs = []\<rparr>"

record sqlite =
  path :: string
  connections :: Gauge
  logger :: Logger
  err :: "go_error option"

text \<open>The fields of \<open>sql.DBStats\<close> that the reporter reads.\<close>

record DBStats =
  OpenConnections :: int
  InUse :: int
  Idle :: int

text \<open>
  The packages the provider calls into (\<open>database/sql\<close>, the sqlite3 driver, the migrator,
  \<open>os\<close>) are parameters: each operation is a function of the state \<open>'w\<close> of the database
  engine and the file system. \<open>sqlite3_Version\<close> is the first result of \<open>sqlite3.Version()\<close>.
\<close>

record 'w sys =
  sqlite3_Version :: string
  sql_Open :: "string \<Rightarrow> string \<Rightarrow> 'w \<Rightarrow> (go_error + handle) \<times> 'w"
  db_Ping :: "handle \<Rightarrow> 'w \<Rightarrow> go_error option \<times> 'w"
  sqliteMigrator_Migrate :: "handle \<Rightarrow> 'w \<Rightarrow> go_error option \<times> 'w"
  db_Close :: "handle \<Rightarrow> 'w \<Rightarrow> go_error option \<times> 'w"
  os_RemoveAll :: "string \<Rightarrow> 'w \<Rightarrow> go_error option \<times> 'w"

text \<open>
  Every call that leaves the package is recorded, oldest first. \<open>Call_Go db d\<close> is the \<open>go\<close>
  statement that starts the reporter for \<open>db\<close> with a ticker of period \<open>d\<close> nanoseconds.
\<close>

datatype call =
    Call_Version
  | Call_Log Logger "string list"
  | Call_Open string string
  | Call_Ping handle
  | Call_Migrate handle
  | Call_Go handle int
  | Call_Close handle
  | Call_RemoveAll string

record 'w process =
  sqliteVersionLogOnce :: bool
  world :: 'w
  calls :: "call list"

text \<open>\<open>sync.Once.Do\<close>: the action runs if the gate has not fired, and the gate fires.\<close>

definition Once_Do :: "('w process \<Rightarrow> 'w process) \<Rightarrow> 'w process \<Rightarrow> 'w process" where
  "Once_Do f p = (if sqliteVersionLogOnce p then p else (f p)\<lparr>sqliteVersionLogOnce := True\<rparr>)"

text \<open>The function literal passed to \<open>sqliteVersionLogOnce.Do\<close>.\<close>

definition logVersion :: "'w sys \<Rightarrow> sqlite \<Rightarrow> 'w process \<Rightarrow> 'w process" where
  "logVersion sys s p =
     (let p1 = p\<lparr>calls := calls p @ [Call_Version]\<rparr>;
          v = sqlite3_Version sys
      in if v \<noteq> []
         then p1\<lparr>calls := calls p1 @ [Call_Log (logger s) [''main'', ''sqlite version '' @ v]]\<rparr>
         else p1)"

definition Minute :: int where
  "Minute = 60 * 1000000000"

definition Connect ::
  "'w sys \<Rightarrow> sqlite \<Rightarrow> 'w process \<Rightarrow> (handle option \<times> go_error option) \<times> 'w process" where
  "Connect sys s p =
     (case err s of
        Some e \<Rightarrow> ((None, Some (Errorf_v ''sqlite had error '' e)), p)
      | None \<Rightarrow>
         (let p1 = Once_Do (logVersion sys s) p;
              (r, w2) = sql_Open sys ''sqlite3'' (path s) (world p1);
              p2 = p1\<lparr>world := w2, calls := calls p1 @ [Call_Open ''sqlite3'' (path s)]\<rparr>
          in case r of
               Inl e \<Rightarrow> ((None, Some e), p2)
             | Inr db \<Rightarrow>
                (let (pe, w3) = db_Ping sys db (world p2);
                     p3 = p2\<lparr>world := w3, calls := calls p2 @ [Call_Ping db]\<rparr>
                 in case pe of
                      Some e \<Rightarrow> ((Some db, Some e), p3)
                    | None \<Rightarrow>
                       (let (me, w4) = sqliteMigrator_Migrate sys db (world p3);
                            p4 = p3\<lparr>world := w4, calls := calls p3 @ [Call_Migrate db]\<rparr>
                        in case me of
                             Some e \<Rightarrow> ((Some db, Some e), p4)
                           | None \<Rightarrow>
                               ((Some db, None),
                                p4\<lparr>calls := calls p4 @ [Call_Go db (1 * Minute)]\<rparr>)))))"

text \<open>
  The body of the reporter's loop, run at each tick with the snapshot \<open>db.Stats()\<close> returns
  then; \<open>float64\<close> is the conversion of a Go \<open>int\<close>. The loop itself never ends; it is
  modelled over the snapshots of the ticks received so far.
\<close>

definition metrics_tick :: "(int \<Rightarrow> 'f) \<Rightarrow> sqlite \<Rightarrow> DBStats \<Rightarrow> 'f registry \<Rightarrow> 'f registry" where
  "metrics_tick float64 s stats reg =
     (let reg1 = Gauge_Set (Gauge_With (connections s) [''state'', ''idle''])
                   (float64 (Idle stats)) reg;
          reg2 = Gauge_Set (Gauge_With (connections s) [''state'', ''inuse''])
                   (float64 (InUse stats)) reg1
      in Gauge_Set (Gauge_With (connections s) [''state'', ''open''])
           (float64 (OpenConnections stats)) reg2)"

fun metrics_loop :: "(int \<Rightarrow> 'f) \<Rightarrow> sqlite \<Rightarrow> DBStats list \<Rightarrow> 'f registry \<Rightarrow> 'f registry" where
  "metrics_loop float64 s [] reg = reg"
| "metrics_loop float64 s (stats # ticks) reg =
     metrics_loop float64 s ticks (metrics_tick float64 s stats reg)"

definition sqliteConnection :: "Logger \<Rightarrow> string \<Rightarrow> sqlite" where
  "sqliteConnection lg pth =
     \<lparr>path = pth, connections = sqliteConnections, logger = lg, err = None\<rparr>"


section \<open>TestSQLiteDB\<close>

record TestSQLiteDB =
  DB :: handle
  dir :: string

definition Close :: "'w sys \<Rightarrow> TestSQLiteDB \<Rightarrow> 'w process \<Rightarrow> go_error option \<times> 'w process" where
  "Close sys r p =
     (let (ce, w1) = db_Close sys (DB r) (world p);
          p1 = p\<lparr>world := w1, calls := calls p @ [Call_Close (DB r)]\<rparr>
      in case ce of
           Some e \<Rightarrow> (Some e, p1)
         | None \<Rightarrow>
            (let (re, w2) = os_RemoveAll sys (dir r) (world p1)
             in (re, p1\<lparr>world := w2, calls := calls p1 @ [Call_RemoveAll (dir r)]\<rparr>)))"


section \<open>The migration engine\<close>

text \<open>
  Modelled from the spec: \<open>execsql\<close> is declared outside sqlite.go. A migration step is a
  name and the SQL statement it executes (spec, section 3, Migration Step).
\<close>

record migration =
  name :: string
  statement :: string

definition execsql :: "string \<Rightarrow> string \<Rightarrow> migration" where
  "execsql nm raw = \<lparr>name = nm, statement = raw\<rparr>"

text \<open>The steps registered in sqlite.go, in their order.\<close>

definition sqliteMigrator :: "migration list" where
  "sqliteMigrator =
    [execsql ''create_customers''
       ''create table if not exists customers(customer_id primary key, first_name, middle_name, last_name, nick_name, suffix, birth_date datetime, status, email, created_at datetime, last_modified datetime, deleted_at datetime);'',
     execsql ''create_customers_phones''
       ''create table if not exists customers_phones(customer_id, number, valid, type, unique (customer_id, number) on conflict abort);'',
     execsql ''create_customers_addresses''
       ''create table if not exists customers_addresses(address_id primary key, customer_id, type, address1, address2, city, state, postal_code, country, validated, active, unique (customer_id, address1) on conflict abort);'',
     execsql ''create_customer_metadata''
       ''create table if not exists customer_metadata(customer_id, meta_key, meta_value, unique(meta_key, meta_value));'',
     execsql ''customer_status_updates''
       ''create table if not exists customer_status_updates(customer_id, future_status, comment, changed_at datetime);'',
     execsql ''create_customer_ofac_searches''
       ''create table if not exists customer_ofac_searches(customer_id, entity_id, sdn_name, sdn_type, match, created_at datetime);'',
     execsql ''create_customer_ssn''
       ''create table if not exists customer_ssn(customer_id primary key, ssn, ssn_masked, created_at datetime);'',
     execsql ''create_documents''
       ''create table if not exists documents(document_id primary key, customer_id, type, content_type, uploaded_at datetime);'',
     execsql ''create_disclaimers''
       ''create table if not exists disclaimers(disclaimer_id primary key, text, document_id, created_at datetime, deleted_at datetime);'',
     execsql ''create_disclaimer_acceptances''
       ''create table if not exists disclaimer_acceptances(disclaimer_id, customer_id, accepted_at datetime, unique(disclaimer_id, customer_id) on conflict ignore);'',
     execsql ''create_outbound_emails''
       ''create table if not exists outbound_emails(email_id, customer_id, to_address, body, created_at datetime, sent_at datetime, deleted_at datetime);'',
     execsql ''create_email_activation_codes''
       ''create table if not exists email_activation_codes(email_id, hash, created_at datetime, clicked_at datetime, deleted_at datetime);'']"

text \<open>
  Modelled from the spec: the database as the migration engine sees it (spec, section 3,
  Migration Ledger). \<open>ledger\<close> holds the rows of the ledger table, oldest first, and is
  \<open>None\<close> while the table does not exist; \<open>content\<close> is everything else in the database;
  \<open>executed\<close> lists the step statements run against it so far.
\<close>

record 'd database =
  ledger :: "string list option"
  content :: 'd
  executed :: "string list"

text \<open>Modelled from the spec: "ensure the Migration Ledger table exists" (section 4.2).\<close>

definition ensure_ledger :: "'d database \<Rightarrow> 'd database" where
  "ensure_ledger db = (case ledger db of None \<Rightarrow> db\<lparr>ledger := Some []\<rparr> | Some rows \<Rightarrow> db)"

text \<open>Modelled from the spec: "check whether its name is already recorded in the ledger"
  (section 4.2).\<close>

definition recorded :: "'d database \<Rightarrow> string \<Rightarrow> bool" where
  "recorded db nm = (case ledger db of None \<Rightarrow> False | Some rows \<Rightarrow> nm \<in> set rows)"

text \<open>Modelled from the spec: "record the name" (section 4.2); the ledger is append-only.\<close>

definition record_applied :: "string \<Rightarrow> 'd database \<Rightarrow> 'd database" where
  "record_applied nm db =
     db\<lparr>ledger := Some ((case ledger db of None \<Rightarrow> [] | Some rows \<Rightarrow> rows) @ [nm])\<rparr>"

text \<open>
  Modelled from the spec: the loop of \<open>Migrate\<close>, which belongs to the imported migrator
  package (section 4.2). For each step in registration order: a recorded step is skipped;
  otherwise its statement is executed and its name recorded, as one unit; a failing
  statement aborts with its error and records nothing. The SQL engine \<open>exec\<close> is a parameter.
\<close>

fun apply_steps ::
  "(string \<Rightarrow> 'd \<Rightarrow> go_error + 'd) \<Rightarrow> migration list \<Rightarrow> 'd database
     \<Rightarrow> go_error option \<times> 'd database" where
  "apply_steps exec [] db = (None, db)"
| "apply_steps exec (m # ms) db =
     (if recorded db (name m) then apply_steps exec ms db
      else (case exec (statement m) (content db) of
              Inl e \<Rightarrow> (Some e, db\<lparr>executed := executed db @ [statement m]\<rparr>)
            | Inr d \<Rightarrow>
                apply_steps exec ms
                  (record_applied (name m)
                     (db\<lparr>content := d, executed := executed db @ [statement m]\<rparr>))))"

text \<open>Modelled from the spec: \<open>Migrate\<close> of the imported migrator package (section 4.2).\<close>

definition Migrate ::
  "(string \<Rightarrow> 'd \<Rightarrow> go_error + 'd) \<Rightarrow> migration list \<Rightarrow> 'd database
     \<Rightarrow> go_error option \<times> 'd database" where
  "Migrate exec steps db = apply_steps exec steps (ensure_ledger db)"


section \<open>Reading the call trace\<close>





section \<open>Test doubles\<close>

text \<open>
  A database engine in which every operation succeeds and counts the operations made, and
  a process that has made no call yet. They serve as the concrete inputs of the examples
  below; an example replaces single operations by failing ones.
\<close>

abbreviation (input) demo_sys :: "nat sys" where
  "demo_sys \<equiv>
     \<lparr>sqlite3_Version = ''3.30.1'',
      sql_Open = (\<lambda>driver pth w. (Inr 7, Suc w)),
      db_Ping = (\<lambda>db w. (None, Suc w)),
      sqliteMigrator_Migrate = (\<lambda>db w. (None, Suc w)),
      db_Close = (\<lambda>db w. (None, Suc w)),
      os_RemoveAll = (\<lambda>d w. (None, Suc w))\<rparr>"

abbreviation (input) demo_start :: "nat process" where
  "demo_start \<equiv> \<lparr>sqliteVersionLogOnce = False, world = 0, calls = []\<rparr>"


text \<open>An SQL engine in which every statement succeeds and is appended to the content, and
  a database without a ledger table.\<close>

abbreviation (input) demo_exec :: "string \<Rightarrow> string list \<Rightarrow> go_error + string list" where
  "demo_exec \<equiv> \<lambda>stmt tables. Inr (tables @ [stmt])"

abbreviation (input) fresh_database :: "string list database" where
  "fresh_database \<equiv> \<lparr>ledger = None, content = [], executed = []\<rparr>"


section \<open>Basic facts\<close>

lemma HasPrefix_prefix: "HasPrefix s t \<longleftrightarrow> prefix t s"
  by (induction s t rule: HasPrefix.induct) auto

lemma Contains_sublist: "Contains s t \<longleftrightarrow> sublist t s"
  by (induction s) (auto simp: HasPrefix_prefix sublist_Cons_right)

lemma default_has_no_traversal: "\<not> Contains ''customers.db'' ''..''"
  by simp

lemma world_logVersion: "world (Once_Do (logVersion sys s) p) = world p"
  by (simp add: Once_Do_def logVersion_def Let_def)

lemma calls_logVersion:
  "\<exists>pre. calls (Once_Do (logVersion sys s) p) = calls p @ pre
     \<and> (\<forall>db d. Call_Go db d \<notin> set pre)"
  by (simp add: Once_Do_def logVersion_def Let_def)

lemma metrics_tick_apply:
  "metrics_tick float64 s stats reg =
     reg((gv (connections s), lvs (connections s) @ [''state'', ''idle'']) \<mapsto> float64 (Idle stats),
         (gv (connections s), lvs (connections s) @ [''state'', ''inuse'']) \<mapsto> float64 (InUse stats),
         (gv (connections s), lvs (connections s) @ [''state'', ''open''])
            \<mapsto> float64 (OpenConnections stats))"
  by (simp add: metrics_tick_def Gauge_Set_def Gauge_With_def Let_def)

lemma metrics_loop_snoc:
  "metrics_loop float64 s (ticks @ [stats]) reg
     = metrics_tick float64 s stats (metrics_loop float64 s ticks reg)"
  by (induction ticks arbitrary: reg) simp_all

lemma Connect_reporter_last:
  assumes go: "Call_Go db d \<in> set (drop (length (calls p)) (calls (snd (Connect sys s p))))"
  shows "err s = None
       \<and> (\<exists>w1 w2 w3. sql_Open sys ''sqlite3'' (path s) (world p) = (Inr db, w1)
            \<and> db_Ping sys db w1 = (None, w2)
            \<and> sqliteMigrator_Migrate sys db w2 = (None, w3))
       \<and> fst (Connect sys s p) = (Some db, None)
       \<and> d = 60000000000
       \<and> (\<exists>pre. (\<forall>db' d'. Call_Go db' d' \<notin> set pre)
            \<and> drop (length (calls p)) (calls (snd (Connect sys s p)))
                = pre @ [Call_Open ''sqlite3'' (path s), Call_Ping db, Call_Migrate db,
                         Call_Go db d])"
proof (cases "err s")
  case (Some e)
  with go show ?thesis by (simp add: Connect_def)
next
  case None
  from calls_logVersion [of sys s p] obtain pre
    where pre: "calls (Once_Do (logVersion sys s) p) = calls p @ pre"
      and nogo: "\<forall>db d. Call_Go db d \<notin> set pre"
    by blast
  from go None pre nogo show ?thesis
    by (simp add: Connect_def world_logVersion Let_def Minute_def
             split: prod.splits sum.splits option.splits)
qed







lemma Connect_opens:
  assumes "err s = None"
  shows "Call_Open ''sqlite3'' (path s)
           \<in> set (drop (length (calls p)) (calls (snd (Connect sys s p))))"
proof -
  from calls_logVersion [of sys s p] obtain pre
    where pre: "calls (Once_Do (logVersion sys s) p) = calls p @ pre"
    by blast
  with assms show ?thesis
    by (simp add: Connect_def Let_def split: prod.splits sum.splits option.splits)
qed






lemma recorded_record_applied:
  "recorded (record_applied nm db) n \<longleftrightarrow> n = nm \<or> recorded db n"
  by (auto simp: recorded_def record_applied_def split: option.splits)

lemma recorded_executed [simp]:
  "recorded (db\<lparr>content := d, executed := xs\<rparr>) n = recorded db n"
  by (simp add: recorded_def)

lemma apply_steps_records:
  "apply_steps exec ms db = (None, db')
     \<Longrightarrow> (\<forall>m \<in> set ms. recorded db' (name m)) \<and> (\<forall>n. recorded db n \<longrightarrow> recorded db' n)"
proof (induction ms arbitrary: db)
  case Nil
  then show ?case by simp
next
  case (Cons m ms)
  show ?case
  proof (cases "recorded db (name m)")
    case True
    with Cons.prems have "apply_steps exec ms db = (None, db')" by simp
    from Cons.IH [OF this] True show ?thesis by simp
  next
    case False
    with Cons.prems obtain d where
      run: "exec (statement m) (content db) = Inr d"
      and rest: "apply_steps exec ms
           (record_applied (name m) (db\<lparr>content := d, executed := executed db @ [statement m]\<rparr>))
         = (None, db')"
      by (auto split: sum.splits)
    from Cons.IH [OF rest] show ?thesis
      by (simp add: recorded_record_applied)
  qed
qed

lemma apply_steps_skips:
  "\<forall>m \<in> set ms. recorded db (name m) \<Longrightarrow> apply_steps exec ms db = (None, db)"
  by (induction ms) simp_all

lemma ledger_apply_steps:
  "ledger db \<noteq> None \<Longrightarrow> ledger (snd (apply_steps exec ms db)) \<noteq> None"
  by (induction ms arbitrary: db) (auto simp: record_applied_def split: sum.splits)

lemma Migrate_already_migrated:
  assumes "ledger db \<noteq> None" and "\<forall>m \<in> set steps. recorded db (name m)"
  shows "Migrate exec steps db = (None, db)"
proof -
  from assms(1) have "ensure_ledger db = db"
    by (auto simp: ensure_ledger_def)
  with assms(2) show ?thesis
    by (simp add: Migrate_def apply_steps_skips)
qed

lemma ledger_ensure: "ledger (ensure_ledger db) \<noteq> None"
  by (auto simp: ensure_ledger_def split: option.splits)


section \<open>The path resolver\<close>

text \<open>
  C4. The path resolver is total. When the value of \<open>SQLITE_DB_PATH\<close> is empty (or the
  variable is not set) or contains the parent-directory marker \<open>..\<close>, the result is the fixed
  file name \<open>customers.db\<close>, which is never the raw input; for every other value the result
  is the value itself.
\<close>

theorem getSqlitePath_total:
  "(Getenv env ''SQLITE_DB_PATH'' = [] \<or> sublist ''..'' (Getenv env ''SQLITE_DB_PATH'')
      \<longrightarrow> getSqlitePath env = ''customers.db''
          \<and> getSqlitePath env \<noteq> Getenv env ''SQLITE_DB_PATH'')
   \<and> (\<not> (Getenv env ''SQLITE_DB_PATH'' = [] \<or> sublist ''..'' (Getenv env ''SQLITE_DB_PATH''))
      \<longrightarrow> getSqlitePath env = Getenv env ''SQLITE_DB_PATH'')"
proof -
  let ?raw = "Getenv env ''SQLITE_DB_PATH''"
  have unsafe: "getSqlitePath env = ''customers.db''" if "?raw = [] \<or> sublist ''..'' ?raw"
    using that by (simp add: getSqlitePath_def Contains_sublist)
  have differs: "''customers.db'' \<noteq> ?raw" if "?raw = [] \<or> sublist ''..'' ?raw"
  proof
    assume eq: "''customers.db'' = ?raw"
    with that have "Contains ''customers.db'' ''..''"
      by (auto simp: Contains_sublist)
    with default_has_no_traversal show False by blast
  qed
  have safe: "getSqlitePath env = ?raw" if "\<not> (?raw = [] \<or> sublist ''..'' ?raw)"
    using that by (simp add: getSqlitePath_def Contains_sublist)
  from unsafe differs safe show ?thesis by metis
qed

theorem getSqlitePath_total_witness:
  "sublist ''..'' (Getenv [''SQLITE_DB_PATH'' \<mapsto> ''../../etc/passwd''] ''SQLITE_DB_PATH'')
   \<and> getSqlitePath [''SQLITE_DB_PATH'' \<mapsto> ''../../etc/passwd''] = ''customers.db''
   \<and> Getenv Map.empty ''SQLITE_DB_PATH'' = []
   \<and> getSqlitePath Map.empty = ''customers.db''
   \<and> \<not> (Getenv [''SQLITE_DB_PATH'' \<mapsto> ''/data/customers.sqlite''] ''SQLITE_DB_PATH'' = []
        \<or> sublist ''..'' (Getenv [''SQLITE_DB_PATH'' \<mapsto> ''/data/customers.sqlite''] ''SQLITE_DB_PATH''))
   \<and> getSqlitePath [''SQLITE_DB_PATH'' \<mapsto> ''/data/customers.sqlite''] = ''/data/customers.sqlite''"
  using getSqlitePath_total [of "[''SQLITE_DB_PATH'' \<mapsto> ''../../etc/passwd'']"]
    getSqlitePath_total [of Map.empty]
    getSqlitePath_total [of "[''SQLITE_DB_PATH'' \<mapsto> ''/data/customers.sqlite'']"]
  by (simp add: Getenv_def Contains_sublist [symmetric])


section \<open>The error classifier\<close>

text \<open>
  C5, as stated, gives \<open>SqliteUniqueViolation\<close> a boolean result for every non-nil error. A
  non-nil error whose \<open>Error()\<close> method panics has none: with a nil \<open>*sqlite3.Error\<close> held in
  the interface, the call \<open>err.Error()\<close> panics and so does the function.
\<close>

theorem SqliteUniqueViolation_nil_pointer_panics:
  "SqliteUniqueViolation 19 (ErrorPanics NilPointerReceiver) = Inl NilPointerReceiver"
  by simp

text \<open>
  C5, amended. For every non-nil error whose \<open>Error()\<close> method returns,
  \<open>SqliteUniqueViolation\<close> returns true if the text of the error contains
  \<open>UNIQUE constraint failed\<close> or if the error is a \<open>sqlite3.Error\<close> whose code is
  \<open>ErrConstraint\<close>, and false otherwise.
\<close>

theorem SqliteUniqueViolation_classifies:
  "SqliteUniqueViolation ErrConstraint (ErrorReturns e) =
     Inr (sublist ''UNIQUE constraint failed'' (Error e)
          \<or> (\<exists>msg. e = Sqlite3Error ErrConstraint msg))"
  by (cases e) (simp_all add: Contains_sublist)

theorem SqliteUniqueViolation_classifies_witness:
  "SqliteUniqueViolation 19 (ErrorReturns (Sqlite3Error 19 ''constraint failed'')) = Inr True
   \<and> SqliteUniqueViolation 19
        (ErrorReturns (PlainError ''UNIQUE constraint failed: customer_metadata.meta_key''))
       = Inr True
   \<and> SqliteUniqueViolation 19 (ErrorReturns (PlainError ''sql: database is closed''))
       = Inr False"
  using SqliteUniqueViolation_classifies [of 19 "Sqlite3Error 19 ''constraint failed''"]
    SqliteUniqueViolation_classifies
      [of 19 "PlainError ''UNIQUE constraint failed: customer_metadata.meta_key''"]
    SqliteUniqueViolation_classifies [of 19 "PlainError ''sql: database is closed''"]
  by (simp add: Contains_sublist [symmetric])

text \<open>
  C6, as stated, asks that no error value makes \<open>SqliteUniqueViolation\<close> panic. The nil error
  does: \<open>err.Error()\<close> is called before anything else.
\<close>

theorem SqliteUniqueViolation_nil_panics:
  "SqliteUniqueViolation 19 NilError = Inl NilDereference"
  by simp

text \<open>
  C6, amended. \<open>SqliteUniqueViolation\<close> panics exactly when the call \<open>err.Error()\<close> panics,
  and with that panic: on the nil error and on an error whose \<open>Error()\<close> method panics. On
  every other error value, which is every non-nil error whose \<open>Error()\<close> returns, it returns
  a boolean; and for such an error that neither carries the phrase
  \<open>UNIQUE constraint failed\<close> nor is a \<open>sqlite3.Error\<close> with the code \<open>ErrConstraint\<close> it
  returns false.
\<close>

theorem SqliteUniqueViolation_panics_only_in_Error:
  "(SqliteUniqueViolation ErrConstraint ev = Inl q \<longleftrightarrow> call_Error ev = Inl q)
   \<and> ((\<exists>b. SqliteUniqueViolation ErrConstraint ev = Inr b)
        \<longleftrightarrow> (\<exists>e. ev = ErrorReturns e))
   \<and> (\<not> sublist ''UNIQUE constraint failed'' (Error e)
        \<and> (\<forall>msg. e \<noteq> Sqlite3Error ErrConstraint msg)
      \<longrightarrow> SqliteUniqueViolation ErrConstraint (ErrorReturns e) = Inr False)"
proof -
  have "SqliteUniqueViolation ErrConstraint ev = Inl q \<longleftrightarrow> call_Error ev = Inl q"
    by (auto simp: Let_def split: sum.splits error_value.splits go_error.splits)
  moreover have "(\<exists>b. SqliteUniqueViolation ErrConstraint ev = Inr b)
      \<longleftrightarrow> (\<exists>e. ev = ErrorReturns e)"
    by (cases ev) (auto simp: Let_def split: go_error.splits)
  moreover have "SqliteUniqueViolation ErrConstraint (ErrorReturns e) = Inr False"
    if "\<not> sublist ''UNIQUE constraint failed'' (Error e)"
      and "\<forall>msg. e \<noteq> Sqlite3Error ErrConstraint msg"
    using that by (cases e) (simp_all add: Contains_sublist)
  ultimately show ?thesis by blast
qed

theorem SqliteUniqueViolation_panics_only_in_Error_witness:
  "\<not> sublist ''UNIQUE constraint failed'' (Error (Sqlite3Error 5 ''database is locked''))
   \<and> (\<forall>msg. Sqlite3Error 5 ''database is locked'' \<noteq> Sqlite3Error 19 msg)
   \<and> SqliteUniqueViolation 19 (ErrorReturns (Sqlite3Error 5 ''database is locked'')) = Inr False
   \<and> call_Error (ErrorPanics (OtherPanic ''boom'')) = Inl (OtherPanic ''boom'')
   \<and> SqliteUniqueViolation 19 (ErrorPanics (OtherPanic ''boom'')) = Inl (OtherPanic ''boom'')"
  using SqliteUniqueViolation_panics_only_in_Error
      [of 19 "ErrorReturns (Sqlite3Error 5 ''database is locked'')" NilDereference
          "Sqlite3Error 5 ''database is locked''"]
    SqliteUniqueViolation_panics_only_in_Error
      [of 19 "ErrorPanics (OtherPanic ''boom'')" "OtherPanic ''boom''"
          "Sqlite3Error 5 ''database is locked''"]
  by (simp add: Contains_sublist [symmetric])


section \<open>Connect\<close>

text \<open>
  C2. In a call of \<open>Connect\<close> that reaches the open step (no stored error): if opening fails,
  \<open>Connect\<close> returns no handle and the open error; if opening succeeds and the ping fails,
  or the ping succeeds and the migration fails, it returns the opened handle and that error.
\<close>

theorem Connect_failure_points:
  assumes "err s = None"
  shows "(\<forall>e w. sql_Open sys ''sqlite3'' (path s) (world p) = (Inl e, w)
            \<longrightarrow> fst (Connect sys s p) = (None, Some e))
       \<and> (\<forall>db w e w'. sql_Open sys ''sqlite3'' (path s) (world p) = (Inr db, w)
              \<and> db_Ping sys db w = (Some e, w')
            \<longrightarrow> fst (Connect sys s p) = (Some db, Some e))
       \<and> (\<forall>db w w' e w''. sql_Open sys ''sqlite3'' (path s) (world p) = (Inr db, w)
              \<and> db_Ping sys db w = (None, w')
              \<and> sqliteMigrator_Migrate sys db w' = (Some e, w'')
            \<longrightarrow> fst (Connect sys s p) = (Some db, Some e))"
  using assms by (simp add: Connect_def world_logVersion Let_def)

theorem Connect_failure_points_witness:
  "fst (Connect (demo_sys\<lparr>sql_Open := \<lambda>driver pth w. (Inl (PlainError ''unable to open database file''), w)\<rparr>)
          (sqliteConnection 0 ''customers.db'') demo_start)
     = (None, Some (PlainError ''unable to open database file''))
   \<and> fst (Connect (demo_sys\<lparr>db_Ping := \<lambda>db w. (Some (PlainError ''file is not a database''), w)\<rparr>)
          (sqliteConnection 0 ''customers.db'') demo_start)
     = (Some 7, Some (PlainError ''file is not a database''))
   \<and> fst (Connect (demo_sys\<lparr>sqliteMigrator_Migrate := \<lambda>db w. (Some (PlainError ''disk I/O error''), w)\<rparr>)
          (sqliteConnection 0 ''customers.db'') demo_start)
     = (Some 7, Some (PlainError ''disk I/O error''))"
  using
    Connect_failure_points [of "sqliteConnection 0 ''customers.db''"
      "demo_sys\<lparr>sql_Open := \<lambda>driver pth w. (Inl (PlainError ''unable to open database file''), w)\<rparr>"
      demo_start]
    Connect_failure_points [of "sqliteConnection 0 ''customers.db''"
      "demo_sys\<lparr>db_Ping := \<lambda>db w. (Some (PlainError ''file is not a database''), w)\<rparr>"
      demo_start]
    Connect_failure_points [of "sqliteConnection 0 ''customers.db''"
      "demo_sys\<lparr>sqliteMigrator_Migrate := \<lambda>db w. (Some (PlainError ''disk I/O error''), w)\<rparr>"
      demo_start]
  by (simp add: sqliteConnection_def)

text \<open>
  C3. For a provider with a stored error, \<open>Connect\<close> returns that error behind the prefix
  \<open>sqlite had error\<close> and no handle, and leaves the process as it was: no version query, no
  open, no ping, no migration and no reporter, and the one-time gate is not fired. The same
  holds after any number of such calls.
\<close>

theorem Connect_stored_error:
  assumes "err s = Some e"
  shows "Connect sys s p = ((None, Some (PlainError (''sqlite had error '' @ Error e))), p)
       \<and> calls (snd (Connect sys s p)) = calls p
       \<and> ((\<lambda>q. snd (Connect sys s q)) ^^ n) p = p"
proof -
  have one: "Connect sys s q = ((None, Some (PlainError (''sqlite had error '' @ Error e))), q)" for q
    using assms by (simp add: Connect_def Errorf_v_def)
  have "((\<lambda>q. snd (Connect sys s q)) ^^ n) p = p"
    by (induction n) (simp_all add: one)
  with one show ?thesis by simp
qed

theorem Connect_stored_error_witness:
  "err ((sqliteConnection 0 ''customers.db'')\<lparr>err := Some (PlainError ''bad config'')\<rparr>)
     = Some (PlainError ''bad config'')
   \<and> Connect demo_sys ((sqliteConnection 0 ''customers.db'')\<lparr>err := Some (PlainError ''bad config'')\<rparr>)
        demo_start
     = ((None, Some (PlainError ''sqlite had error bad config'')), demo_start)"
  using Connect_stored_error [of "(sqliteConnection 0 ''customers.db'')\<lparr>err := Some (PlainError ''bad config'')\<rparr>"
      "PlainError ''bad config''" demo_sys demo_start 0]
  by (simp add: sqliteConnection_def)

text \<open>
  C7. A run of \<open>Connect\<close> starts the reporter only as its last call, after the open, the ping
  and the migration of that run, all of which succeeded; its ticker has a period of one
  minute. One tick of the reporter sets the three gauges labelled \<open>state=idle\<close>,
  \<open>state=inuse\<close> and \<open>state=open\<close> to the values of the snapshot, and no other gauge;
  the loop does this at every tick it receives, with the snapshot taken at that tick.
\<close>

theorem reporter_after_migration:
  "(\<forall>db d. Call_Go db d \<in> set (drop (length (calls p)) (calls (snd (Connect sys s p))))
      \<longrightarrow> err s = None
        \<and> (\<exists>w1 w2 w3. sql_Open sys ''sqlite3'' (path s) (world p) = (Inr db, w1)
             \<and> db_Ping sys db w1 = (None, w2)
             \<and> sqliteMigrator_Migrate sys db w2 = (None, w3))
        \<and> fst (Connect sys s p) = (Some db, None)
        \<and> d = 60000000000
        \<and> (\<exists>pre. (\<forall>db' d'. Call_Go db' d' \<notin> set pre)
             \<and> drop (length (calls p)) (calls (snd (Connect sys s p)))
                 = pre @ [Call_Open ''sqlite3'' (path s), Call_Ping db, Call_Migrate db,
                          Call_Go db d]))
   \<and> metrics_tick float64 s stats reg
        (gv (connections s), lvs (connections s) @ [''state'', ''idle''])
       = Some (float64 (Idle stats))
   \<and> metrics_tick float64 s stats reg
        (gv (connections s), lvs (connections s) @ [''state'', ''inuse''])
       = Some (float64 (InUse stats))
   \<and> metrics_tick float64 s stats reg
        (gv (connections s), lvs (connections s) @ [''state'', ''open''])
       = Some (float64 (OpenConnections stats))
   \<and> (\<forall>k. k \<notin> {(gv (connections s), lvs (connections s) @ [''state'', ''idle'']),
                (gv (connections s), lvs (connections s) @ [''state'', ''inuse'']),
                (gv (connections s), lvs (connections s) @ [''state'', ''open''])}
        \<longrightarrow> metrics_tick float64 s stats reg k = reg k)
   \<and> metrics_loop float64 s (ticks @ [stats]) reg
       = metrics_tick float64 s stats (metrics_loop float64 s ticks reg)"
  (is "?order \<and> ?idle \<and> ?inuse \<and> ?open \<and> ?rest \<and> ?loop")
proof -
  have ?order
  proof (intro allI impI)
    fix db d
    assume "Call_Go db d \<in> set (drop (length (calls p)) (calls (snd (Connect sys s p))))"
    then show "err s = None
        \<and> (\<exists>w1 w2 w3. sql_Open sys ''sqlite3'' (path s) (world p) = (Inr db, w1)
             \<and> db_Ping sys db w1 = (None, w2)
             \<and> sqliteMigrator_Migrate sys db w2 = (None, w3))
        \<and> fst (Connect sys s p) = (Some db, None)
        \<and> d = 60000000000
        \<and> (\<exists>pre. (\<forall>db' d'. Call_Go db' d' \<notin> set pre)
             \<and> drop (length (calls p)) (calls (snd (Connect sys s p)))
                 = pre @ [Call_Open ''sqlite3'' (path s), Call_Ping db, Call_Migrate db,
                          Call_Go db d])"
      by (rule Connect_reporter_last)
  qed
  moreover have ?idle by (simp add: metrics_tick_apply)
  moreover have ?inuse by (simp add: metrics_tick_apply)
  moreover have ?open by (simp add: metrics_tick_apply)
  moreover have ?rest by (simp add: metrics_tick_apply)
  moreover have ?loop by (rule metrics_loop_snoc)
  ultimately show ?thesis by (intro conjI)
qed


theorem reporter_after_migration_witness:
  "Call_Go 7 60000000000
     \<in> set (drop (length (calls demo_start))
              (calls (snd (Connect demo_sys (sqliteConnection 0 ''customers.db'') demo_start))))
   \<and> fst (Connect demo_sys (sqliteConnection 0 ''customers.db'') demo_start) = (Some 7, None)
   \<and> metrics_tick (\<lambda>n. n) (sqliteConnection 0 ''customers.db'')
        \<lparr>OpenConnections = 3, InUse = 1, Idle = 2\<rparr> Map.empty
        (''sqlite_connections'', [''state'', ''idle'']) = Some 2"
proof -
  have go: "Call_Go 7 60000000000
     \<in> set (drop (length (calls demo_start))
              (calls (snd (Connect demo_sys (sqliteConnection 0 ''customers.db'') demo_start))))"
    by (simp add: Connect_def sqliteConnection_def Once_Do_def logVersion_def Let_def Minute_def)
  note inst = reporter_after_migration [of demo_start demo_sys "sqliteConnection 0 ''customers.db''"
      "\<lambda>n. n" "\<lparr>OpenConnections = 3, InUse = 1, Idle = 2\<rparr>" Map.empty "[]"]
  from inst go have "fst (Connect demo_sys (sqliteConnection 0 ''customers.db'') demo_start) = (Some 7, None)"
    by blast
  moreover from inst have "metrics_tick (\<lambda>n. n) (sqliteConnection 0 ''customers.db'')
        \<lparr>OpenConnections = 3, InUse = 1, Idle = 2\<rparr> Map.empty
        (gv (connections (sqliteConnection 0 ''customers.db'')),
         lvs (connections (sqliteConnection 0 ''customers.db'')) @ [''state'', ''idle'']) = Some (Idle \<lparr>OpenConnections = 3, InUse = 1, Idle = 2\<rparr>)"
    by blast
  then have "metrics_tick (\<lambda>n. n) (sqliteConnection 0 ''customers.db'')
        \<lparr>OpenConnections = 3, InUse = 1, Idle = 2\<rparr> Map.empty
        (''sqlite_connections'', [''state'', ''idle'']) = Some 2"
    by (simp add: sqliteConnection_def sqliteConnections_def)
  ultimately show ?thesis using go by blast
qed



text \<open>
  C10. A provider built by \<open>sqliteConnection\<close> has no stored error, whatever the logger and
  the path; so \<open>Connect\<close> on it always reaches the open step, and never returns by the
  stored-error branch, which would leave the process unchanged.
\<close>

theorem sqliteConnection_no_stored_error:
  "err (sqliteConnection lg pth) = None
   \<and> Call_Open ''sqlite3'' pth
        \<in> set (drop (length (calls p)) (calls (snd (Connect sys (sqliteConnection lg pth) p))))
   \<and> (\<forall>e. Connect sys (sqliteConnection lg pth) p
            \<noteq> ((None, Some (Errorf_v ''sqlite had error '' e)), p))"
proof -
  have none: "err (sqliteConnection lg pth) = None"
    by (simp add: sqliteConnection_def)
  have "path (sqliteConnection lg pth) = pth"
    by (simp add: sqliteConnection_def)
  with Connect_opens [OF none, of p sys]
  have opened: "Call_Open ''sqlite3'' pth
        \<in> set (drop (length (calls p)) (calls (snd (Connect sys (sqliteConnection lg pth) p))))"
    by simp
  have "Connect sys (sqliteConnection lg pth) p \<noteq> (r, p)" for r
  proof
    assume "Connect sys (sqliteConnection lg pth) p = (r, p)"
    with opened show False by simp
  qed
  with none opened show ?thesis by blast
qed

theorem sqliteConnection_no_stored_error_witness:
  "err (sqliteConnection 3 ''/data/customers.db'') = None
   \<and> Call_Open ''sqlite3'' ''/data/customers.db''
        \<in> set (drop (length (calls demo_start))
              (calls (snd (Connect demo_sys (sqliteConnection 3 ''/data/customers.db'') demo_start))))"
  using sqliteConnection_no_stored_error [of 3 "''/data/customers.db''" demo_start demo_sys]
  by blast


section \<open>The test harness\<close>

text \<open>
  C9. \<open>Close\<close> of a test database: when closing the handle fails, the close error is returned
  and \<open>os.RemoveAll\<close> is not called; when the handle closes, the temporary directory is
  removed with \<open>os.RemoveAll\<close> and the result of the removal is returned.
\<close>

theorem Close_skips_removal_on_error:
  "(\<forall>e w. db_Close sys (DB r) (world p) = (Some e, w)
      \<longrightarrow> Close sys r p = (Some e, p\<lparr>world := w, calls := calls p @ [Call_Close (DB r)]\<rparr>))
   \<and> (\<forall>w re w'. db_Close sys (DB r) (world p) = (None, w) \<and> os_RemoveAll sys (dir r) w = (re, w')
      \<longrightarrow> Close sys r p
            = (re, p\<lparr>world := w', calls := calls p @ [Call_Close (DB r), Call_RemoveAll (dir r)]\<rparr>))"
  by (simp add: Close_def Let_def)

theorem Close_skips_removal_on_error_witness:
  "Close (demo_sys\<lparr>db_Close := \<lambda>db w. (Some (PlainError ''database is locked''), w)\<rparr>)
      \<lparr>DB = 7, dir = ''/tmp/customers-sqlite123''\<rparr> demo_start
     = (Some (PlainError ''database is locked''),
        \<lparr>sqliteVersionLogOnce = False, world = 0, calls = [Call_Close 7]\<rparr>)
   \<and> Close demo_sys \<lparr>DB = 7, dir = ''/tmp/customers-sqlite123''\<rparr> demo_start
     = (None, \<lparr>sqliteVersionLogOnce = False, world = 2,
               calls = [Call_Close 7, Call_RemoveAll ''/tmp/customers-sqlite123'']\<rparr>)"
  using
    Close_skips_removal_on_error
      [of "demo_sys\<lparr>db_Close := \<lambda>db w. (Some (PlainError ''database is locked''), w)\<rparr>"
          "\<lparr>DB = 7, dir = ''/tmp/customers-sqlite123''\<rparr>" demo_start]
    Close_skips_removal_on_error
      [of demo_sys "\<lparr>DB = 7, dir = ''/tmp/customers-sqlite123''\<rparr>" demo_start]
  by simp


section \<open>Migrating twice\<close>

text \<open>
  C1. When \<open>Migrate\<close> has succeeded on a database, a second \<open>Migrate\<close> on the resulting
  database is a no-op: it returns no error, executes no statement of any step, and leaves
  the ledger (its number of rows in particular) and the rest of the database as they were.
\<close>

theorem Migrate_twice_is_noop:
  assumes "Migrate exec steps db = (None, db')"
  shows "Migrate exec steps db' = (None, db')
       \<and> fst (Migrate exec steps db') = None
       \<and> executed (snd (Migrate exec steps db')) = executed db'
       \<and> map_option length (ledger (snd (Migrate exec steps db'))) = map_option length (ledger db')"
proof -
  from assms have run: "apply_steps exec steps (ensure_ledger db) = (None, db')"
    by (simp add: Migrate_def)
  from ledger_apply_steps [OF ledger_ensure, of exec steps db] run
  have "ledger db' \<noteq> None" by simp
  moreover from apply_steps_records [OF run]
  have "\<forall>m \<in> set steps. recorded db' (name m)" by blast
  ultimately have "Migrate exec steps db' = (None, db')"
    by (rule Migrate_already_migrated)
  then show ?thesis by simp
qed

theorem Migrate_twice_is_noop_witness:
  "Migrate demo_exec sqliteMigrator fresh_database
     = (None, \<lparr>ledger = Some (map name sqliteMigrator),
               content = map statement sqliteMigrator,
               executed = map statement sqliteMigrator\<rparr>)
   \<and> Migrate demo_exec sqliteMigrator
        \<lparr>ledger = Some (map name sqliteMigrator),
         content = map statement sqliteMigrator,
         executed = map statement sqliteMigrator\<rparr>
     = (None, \<lparr>ledger = Some (map name sqliteMigrator),
               content = map statement sqliteMigrator,
               executed = map statement sqliteMigrator\<rparr>)
   \<and> length (map name sqliteMigrator) = 12"
proof -
  have first: "Migrate demo_exec sqliteMigrator fresh_database
     = (None, \<lparr>ledger = Some (map name sqliteMigrator),
               content = map statement sqliteMigrator,
               executed = map statement sqliteMigrator\<rparr>)"
    by (simp add: Migrate_def sqliteMigrator_def execsql_def ensure_ledger_def recorded_def
          record_applied_def)
  have "length (map name sqliteMigrator) = 12"
    by (simp add: sqliteMigrator_def)
  with first Migrate_twice_is_noop [OF first] show ?thesis by blast
qed

end
